theory Spec2Isabelle
  imports Main
begin

section \<open>clone-user.py: the data the script reads\<close>

text \<open>
  The script \<^verbatim>\<open>src/linux/user-management/clone-user.py\<close> is one linear
  procedure over the host's account and group directories. The records below are the
  entries Python's \<^verbatim>\<open>pwd\<close> and \<^verbatim>\<open>grp\<close> modules return, with the fields the script
  reads (\<^verbatim>\<open>pw_name\<close>, \<^verbatim>\<open>pw_shell\<close>, \<^verbatim>\<open>gr_name\<close>, \<^verbatim>\<open>gr_mem\<close>), and the namespace
  \<^verbatim>\<open>args\<close> that \<^verbatim>\<open>parser.parse_args()\<close> returns. A run is modelled from line 44 on,
  where \<^verbatim>\<open>args\<close> exists; \<^verbatim>\<open>full_name\<close> is \<open>None\<close> when \<^verbatim>\<open>-fn\<close> was not given.
\<close>

record struct_passwd =
  pw_name :: string
  pw_shell :: string

record struct_group =
  gr_name :: string
  gr_mem :: "string list"

record args =
  args_clone_user :: string
  args_new_user :: string
  args_full_name :: "string option"

type_synonym passwd_db = "string \<rightharpoonup> struct_passwd"

text \<open>
  The host is everything outside the script that a run reads: the effective user id,
  the account directory (\<open>getpwnam h name\<close> is \<open>None\<close> where Python raises
  \<^verbatim>\<open>KeyError\<close>), the group directory in the order \<^verbatim>\<open>grp.getgrall()\<close> lists it, the
  line \<^verbatim>\<open>input()\<close> returns, without its newline (\<open>None\<close> at end of file, where Python
  raises \<^verbatim>\<open>EOFError\<close>), and what running a shell command line does to the account
  directory.
\<close>

record host =
  geteuid :: nat
  getpwnam :: passwd_db
  getgrall :: "struct_group list"
  input_line :: "string option"
  os_system :: "string \<Rightarrow> passwd_db \<Rightarrow> passwd_db"

text \<open>
  What a run does to the outside, in order. \<open>Stdout_write\<close> and \<open>Stderr_write\<close>
  carry the text written (a \<^verbatim>\<open>print\<close> adds the newline); \<open>Input\<close> carries the prompt.
\<close>

datatype event =
    Geteuid
  | Getpwnam string
  | Getgrall
  | Stderr_write string
  | Stdout_write string
  | Input string
  | System string

datatype ending = SysExit nat | Uncaught_EOFError

text \<open>
  The outcome of a run: its events, how it ended, and the values of the script's
  variables \<^verbatim>\<open>clone_groups\<close> and \<^verbatim>\<open>cmd\<close> (\<open>None\<close> when the run never assigned them).
\<close>

record outcome =
  events :: "event list"
  clone_groups_var :: "string list option"
  cmd_var :: "string list option"
  ending :: ending

section \<open>String helpers of Python\<close>

text \<open>\<^verbatim>\<open>sep.join(xs)\<close>.\<close>

fun join :: "string \<Rightarrow> string list \<Rightarrow> string" where
  "join sep [] = []"
| "join sep [x] = x"
| "join sep (x # y # ys) = x @ sep @ join sep (y # ys)"

text \<open>
  \<^verbatim>\<open>str.lower()\<close> on the bytes of the string: the letters A to Z become a to z, every
  other byte stays. (No character outside ASCII lowers to \<^verbatim>\<open>y\<close>, \<^verbatim>\<open>e\<close> or \<^verbatim>\<open>s\<close>, so
  the comparison of line 91 is the same on Python's code points.)
\<close>

definition lower_char :: "char \<Rightarrow> char" where
  "lower_char c =
     (case map_of (zip ''ABCDEFGHIJKLMNOPQRSTUVWXYZ'' ''abcdefghijklmnopqrstuvwxyz'') c of
        Some l \<Rightarrow> l
      | None \<Rightarrow> c)"

definition lower :: "string \<Rightarrow> string" where
  "lower s = map lower_char s"

section \<open>The group derivation (lines 64 to 69)\<close>

text \<open>
  The \<^verbatim>\<open>for\<close> loop over \<^verbatim>\<open>grp.getgrall()\<close>, with the list \<^verbatim>\<open>clone_groups\<close> built so far
  as accumulator; \<^verbatim>\<open>append\<close> adds at the end.
\<close>

fun clone_groups_loop :: "struct_passwd \<Rightarrow> struct_group list \<Rightarrow> string list \<Rightarrow> string list" where
  "clone_groups_loop clone_user [] acc = acc"
| "clone_groups_loop clone_user (g # gs) acc =
     clone_groups_loop clone_user gs
       (if pw_name clone_user \<in> set (gr_mem g) \<and> \<not> pw_name clone_user = gr_name g
        then acc @ [gr_name g] else acc)"

definition clone_groups :: "struct_passwd \<Rightarrow> struct_group list \<Rightarrow> string list" where
  "clone_groups clone_user gs = clone_groups_loop clone_user gs []"

section \<open>The command (lines 71 to 85)\<close>

definition dquote :: char where
  "dquote = CHR 0x22"

text \<open>
  Lines 83 to 85: \<^verbatim>\<open>if args.full_name:\<close> is false for \<^verbatim>\<open>None\<close> and for the empty
  string; otherwise the flag and the name between two double-quote characters are appended.
\<close>

fun comment_args :: "string option \<Rightarrow> string list" where
  "comment_args None = []"
| "comment_args (Some full_name) =
     (if full_name \<noteq> [] then [''--comment'', [dquote] @ full_name @ [dquote]] else [])"

definition cmd :: "struct_passwd \<Rightarrow> string list \<Rightarrow> args \<Rightarrow> string list" where
  "cmd clone_user groups a =
     [''useradd'', ''--shell'', pw_shell clone_user, ''--create-home'', ''--user-group'',
      ''--groups'', join '','' groups, args_new_user a]
     @ comment_args (args_full_name a)"

section \<open>The run (lines 44 to 104)\<close>

definition finish :: "event list \<Rightarrow> string list option \<Rightarrow> string list option \<Rightarrow> ending \<Rightarrow> outcome" where
  "finish es cg c e = \<lparr>events = es, clone_groups_var = cg, cmd_var = c, ending = e\<rparr>"

text \<open>Lines 95 to 104: run the command line, look the new user up again.\<close>

definition execute :: "host \<Rightarrow> args \<Rightarrow> string list \<Rightarrow> string list \<Rightarrow> event list \<Rightarrow> outcome" where
  "execute h a cg c es =
     (case os_system h (join '' '' c) (getpwnam h) (args_new_user a) of
        Some new_user \<Rightarrow>
          finish (es @ [System (join '' '' c), Getpwnam (args_new_user a),
                        Stdout_write (''User ['' @ pw_name new_user
                                      @ ''] has been successfully created.\<newline>'')])
            (Some cg) (Some c) (SysExit 0)
      | None \<Rightarrow>
          finish (es @ [System (join '' '' c), Getpwnam (args_new_user a),
                        Stdout_write (''Failed to create user ['' @ args_new_user a
                                      @ '']!\<newline>'')])
            (Some cg) (Some c) (SysExit 1))"

text \<open>Lines 87 to 93: show the command, ask, stop unless the answer is y or yes.\<close>

definition confirm :: "host \<Rightarrow> args \<Rightarrow> string list \<Rightarrow> string list \<Rightarrow> event list \<Rightarrow> outcome" where
  "confirm h a cg c es =
     (case input_line h of
        None \<Rightarrow>
          finish (es @ [Stdout_write (''Command to run:\<newline>    '' @ join '' '' c @ ''\<newline>\<newline>''),
                        Input ''Shall we proceed? [y/n]''])
            (Some cg) (Some c) Uncaught_EOFError
      | Some choice \<Rightarrow>
          if \<not> lower choice \<in> set [''y'', ''yes'']
          then finish (es @ [Stdout_write (''Command to run:\<newline>    '' @ join '' '' c @ ''\<newline>\<newline>''),
                             Input ''Shall we proceed? [y/n]'',
                             Stdout_write ''Operation cancelled.\<newline>''])
                 (Some cg) (Some c) (SysExit 0)
          else execute h a cg c
                 (es @ [Stdout_write (''Command to run:\<newline>    '' @ join '' '' c @ ''\<newline>\<newline>''),
                        Input ''Shall we proceed? [y/n]'']))"

text \<open>Lines 64 to 85: derive the groups, build the command.\<close>

definition build :: "host \<Rightarrow> args \<Rightarrow> struct_passwd \<Rightarrow> event list \<Rightarrow> outcome" where
  "build h a clone_user es =
     confirm h a (clone_groups clone_user (getgrall h))
       (cmd clone_user (clone_groups clone_user (getgrall h)) a) (es @ [Getgrall])"

text \<open>Lines 44 to 62: the privilege check and the two lookups, then the rest.\<close>

definition script :: "host \<Rightarrow> args \<Rightarrow> outcome" where
  "script h a =
     (if geteuid h \<noteq> 0
      then finish [Geteuid, Stderr_write ''Insufficient privelege!\<newline>''] None None (SysExit 1)
      else case getpwnam h (args_clone_user a) of
        None \<Rightarrow>
          finish [Geteuid, Getpwnam (args_clone_user a),
                  Stderr_write (''Unable to find clone source user ['' @ args_clone_user a
                                @ '']!\<newline>'')]
            None None (SysExit 1)
      | Some clone_user \<Rightarrow>
          (case getpwnam h (args_new_user a) of
             Some new_user \<Rightarrow>
               finish [Geteuid, Getpwnam (args_clone_user a), Getpwnam (args_new_user a),
                       Stderr_write (''New user ['' @ args_new_user a @ ''] already exists!\<newline>'')]
                 None None (SysExit 1)
           | None \<Rightarrow>
               build h a clone_user
                 [Geteuid, Getpwnam (args_clone_user a), Getpwnam (args_new_user a)]))"

section \<open>The shell's reading of a quoted word (line 95)\<close>




section \<open>A host to run the script on\<close>

text \<open>
  The host of the script's header comment: a BeagleBone whose only account is the demo
  user \<^verbatim>\<open>debian\<close>, cloned into \<^verbatim>\<open>tot\<close>. The effective user id and the line typed at
  the prompt vary, so they are parameters. \<open>useradd_fails\<close> is a command that leaves the
  account directory as it was, \<open>useradd_creates u\<close> one that enters the account \<open>u\<close>.
\<close>

definition debian :: struct_passwd where
  "debian = \<lparr>pw_name = ''debian'', pw_shell = ''/bin/bash''\<rparr>"

definition bone_passwd :: passwd_db where
  "bone_passwd = map_of [(''debian'', debian)]"

definition bone_groups :: "struct_group list" where
  "bone_groups =
     [\<lparr>gr_name = ''root'', gr_mem = []\<rparr>,
      \<lparr>gr_name = ''sudo'', gr_mem = [''debian'']\<rparr>,
      \<lparr>gr_name = ''dialout'', gr_mem = [''root'', ''debian'']\<rparr>,
      \<lparr>gr_name = ''debian'', gr_mem = [''debian'']\<rparr>]"

definition lonely_groups :: "struct_group list" where
  "lonely_groups =
     [\<lparr>gr_name = ''root'', gr_mem = []\<rparr>,
      \<lparr>gr_name = ''debian'', gr_mem = [''debian'']\<rparr>]"

definition useradd_fails :: "string \<Rightarrow> passwd_db \<Rightarrow> passwd_db" where
  "useradd_fails line db = db"

definition useradd_creates :: "struct_passwd \<Rightarrow> string \<Rightarrow> passwd_db \<Rightarrow> passwd_db" where
  "useradd_creates u line db = db(pw_name u \<mapsto> u)"

definition bone :: "nat \<Rightarrow> string option \<Rightarrow> host" where
  "bone uid line =
     \<lparr>geteuid = uid, getpwnam = bone_passwd, getgrall = bone_groups,
      input_line = line, os_system = useradd_fails\<rparr>"

definition tot :: "string option \<Rightarrow> args" where
  "tot full_name =
     \<lparr>args_clone_user = ''debian'', args_new_user = ''tot'', args_full_name = full_name\<rparr>"

lemmas bone_defs =
  debian_def bone_passwd_def bone_groups_def lonely_groups_def useradd_fails_def bone_def tot_def

lemmas script_defs =
  script_def build_def confirm_def execute_def finish_def cmd_def clone_groups_def

lemmas run_defs = bone_defs script_defs lower_def lower_char_def

section \<open>The group derivation is a filter\<close>

lemma clone_groups_loop_filter:
  "clone_groups_loop u gs acc =
     acc @ map gr_name (filter (\<lambda>g. pw_name u \<in> set (gr_mem g) \<and> gr_name g \<noteq> pw_name u) gs)"
  by (induction gs arbitrary: acc) auto

lemma clone_groups_filter:
  "clone_groups u gs =
     map gr_name (filter (\<lambda>g. pw_name u \<in> set (gr_mem g) \<and> gr_name g \<noteq> pw_name u) gs)"
  by (simp add: clone_groups_def clone_groups_loop_filter)

section \<open>Which runs get how far\<close>

lemma script_reaches_build:
  "geteuid h = 0 \<Longrightarrow> getpwnam h (args_clone_user a) = Some S \<Longrightarrow>
   getpwnam h (args_new_user a) = None \<Longrightarrow>
   script h a = build h a S [Geteuid, Getpwnam (args_clone_user a), Getpwnam (args_new_user a)]"
  by (simp add: script_def)

lemma build_vars:
  "cmd_var (build h a S es) = Some (cmd S (clone_groups S (getgrall h)) a)"
  "clone_groups_var (build h a S es) = Some (clone_groups S (getgrall h))"
  by (simp_all add: build_def confirm_def execute_def finish_def split: option.splits)

text \<open>The variable \<^verbatim>\<open>cmd\<close> is assigned only behind the three gates.\<close>

lemma cmd_var_script:
  "cmd_var (script h a) = Some c \<Longrightarrow>
   geteuid h = 0 \<and> getpwnam h (args_new_user a) = None \<and>
   (\<exists>S. getpwnam h (args_clone_user a) = Some S \<and> c = cmd S (clone_groups S (getgrall h)) a)"
  by (auto simp: script_def build_vars finish_def split: if_splits option.splits)

text \<open>So is the prompt.\<close>

lemma Input_script:
  "Input p \<in> set (events (script h a)) \<Longrightarrow>
   geteuid h = 0 \<and> getpwnam h (args_new_user a) = None \<and>
   (\<exists>S. getpwnam h (args_clone_user a) = Some S)"
  by (auto simp: script_def finish_def split: if_splits option.splits)

lemma confirm_cancel:
  "input_line h = Some choice \<Longrightarrow> lower choice \<notin> {''y'', ''yes''} \<Longrightarrow>
   confirm h a cg c es =
     finish (es @ [Stdout_write (''Command to run:\<newline>    '' @ join '' '' c @ ''\<newline>\<newline>''),
                   Input ''Shall we proceed? [y/n]'',
                   Stdout_write ''Operation cancelled.\<newline>''])
       (Some cg) (Some c) (SysExit 0)"
  by (simp add: confirm_def)

text \<open>What a confirmed run does, by the outcome of the lookup that follows the command.\<close>

lemma confirmed_run:
  assumes "geteuid h = 0"
    and "getpwnam h (args_clone_user a) = Some S"
    and "getpwnam h (args_new_user a) = None"
    and "input_line h = Some choice"
    and "lower choice \<in> {''y'', ''yes''}"
  shows "script h a =
    execute h a (clone_groups S (getgrall h)) (cmd S (clone_groups S (getgrall h)) a)
      [Geteuid, Getpwnam (args_clone_user a), Getpwnam (args_new_user a), Getgrall,
       Stdout_write (''Command to run:\<newline>    ''
                     @ join '' '' (cmd S (clone_groups S (getgrall h)) a) @ ''\<newline>\<newline>''),
       Input ''Shall we proceed? [y/n]'']"
  using assms(4,5) by (simp add: script_reaches_build [OF assms(1-3)] build_def confirm_def)

lemma creation_failed:
  assumes "geteuid h = 0"
    and "getpwnam h (args_clone_user a) = Some S"
    and "getpwnam h (args_new_user a) = None"
    and "input_line h = Some choice"
    and "lower choice \<in> {''y'', ''yes''}"
    and "os_system h (join '' '' (cmd S (clone_groups S (getgrall h)) a)) (getpwnam h)
           (args_new_user a) = None"
  shows "ending (script h a) = SysExit 1"
    and "last (events (script h a)) =
           Stdout_write (''Failed to create user ['' @ args_new_user a @ '']!\<newline>'')"
    and "Stderr_write s \<notin> set (events (script h a))"
  using assms(6) by (simp_all add: confirmed_run [OF assms(1-5)] execute_def finish_def)

lemma creation_succeeded:
  assumes "geteuid h = 0"
    and "getpwnam h (args_clone_user a) = Some S"
    and "getpwnam h (args_new_user a) = None"
    and "input_line h = Some choice"
    and "lower choice \<in> {''y'', ''yes''}"
    and "os_system h (join '' '' (cmd S (clone_groups S (getgrall h)) a)) (getpwnam h)
           (args_new_user a) = Some new_user"
  shows "ending (script h a) = SysExit 0"
    and "last (events (script h a)) =
           Stdout_write (''User ['' @ pw_name new_user @ ''] has been successfully created.\<newline>'')"
  using assms(6) by (simp_all add: confirmed_run [OF assms(1-5)] execute_def finish_def)

lemma successful_run:
  "script (bone 0 (Some ''YES'')
             \<lparr>os_system := useradd_creates \<lparr>pw_name = ''tot'', pw_shell = ''/bin/bash''\<rparr>\<rparr>)
     (tot None) =
     \<lparr>events =
        [Geteuid, Getpwnam ''debian'', Getpwnam ''tot'', Getgrall,
         Stdout_write ''Command to run:\<newline>    useradd --shell /bin/bash --create-home --user-group --groups sudo,dialout tot\<newline>\<newline>'',
         Input ''Shall we proceed? [y/n]'',
         System ''useradd --shell /bin/bash --create-home --user-group --groups sudo,dialout tot'',
         Getpwnam ''tot'',
         Stdout_write ''User [tot] has been successfully created.\<newline>''],
      clone_groups_var = Some [''sudo'', ''dialout''],
      cmd_var = Some [''useradd'', ''--shell'', ''/bin/bash'', ''--create-home'', ''--user-group'',
                      ''--groups'', ''sudo,dialout'', ''tot''],
      ending = SysExit 0\<rparr>"
  by (simp add: run_defs useradd_creates_def)

text \<open>A run that meets end of file at the prompt dies of the uncaught exception.\<close>

lemma end_of_file_at_prompt:
  assumes "geteuid h = 0"
    and "getpwnam h (args_clone_user a) = Some S"
    and "getpwnam h (args_new_user a) = None"
    and "input_line h = None"
  shows "ending (script h a) = Uncaught_EOFError"
  using assms(4) by (simp add: script_reaches_build [OF assms(1-3)] build_def confirm_def finish_def)

section \<open>The answers that count as yes\<close>

lemma lower_char_y: "lower_char c = CHR ''y'' \<longleftrightarrow> c = CHR ''y'' \<or> c = CHR ''Y''"
  by (simp add: lower_char_def)

lemma lower_char_e: "lower_char c = CHR ''e'' \<longleftrightarrow> c = CHR ''e'' \<or> c = CHR ''E''"
  by (simp add: lower_char_def)

lemma lower_char_s: "lower_char c = CHR ''s'' \<longleftrightarrow> c = CHR ''s'' \<or> c = CHR ''S''"
  by (simp add: lower_char_def)

lemma lower_Nil_iff: "lower s = [] \<longleftrightarrow> s = []"
  by (simp add: lower_def)

lemma lower_Cons_iff:
  "lower s = x # xs \<longleftrightarrow> (\<exists>c cs. s = c # cs \<and> lower_char c = x \<and> lower cs = xs)"
  by (auto simp: lower_def map_eq_Cons_conv)

lemma three_elements:
  "(\<exists>c cs. s = c # cs \<and> P c \<and> (\<exists>d ds. cs = d # ds \<and> Q d \<and> (\<exists>e. ds = [e] \<and> R e))) \<longleftrightarrow>
   (\<exists>a b c. s = [a, b, c] \<and> P a \<and> Q b \<and> R c)"
  by blast

lemma lower_y:
  "lower s = [CHR ''y''] \<longleftrightarrow> (\<exists>a. s = [a] \<and> (a = CHR ''y'' \<or> a = CHR ''Y''))"
  by (simp add: lower_Cons_iff lower_Nil_iff lower_char_y)

lemma lower_yes:
  "lower s = [CHR ''y'', CHR ''e'', CHR ''s''] \<longleftrightarrow>
     (\<exists>a b c. s = [a, b, c] \<and> (a = CHR ''y'' \<or> a = CHR ''Y'') \<and>
        (b = CHR ''e'' \<or> b = CHR ''E'') \<and> (c = CHR ''s'' \<or> c = CHR ''S''))"
  by (simp add: lower_Cons_iff lower_Nil_iff lower_char_y lower_char_e lower_char_s)
    (rule three_elements)

text \<open>
  The test of line 91 accepts exactly the one-letter answers y and Y and the three-letter
  answers spelling yes in any mix of cases.
\<close>

lemma affirmative_iff:
  "lower s \<in> set [''y'', ''yes''] \<longleftrightarrow>
     (\<exists>a. s = [a] \<and> (a = CHR ''y'' \<or> a = CHR ''Y'')) \<or>
     (\<exists>a b c. s = [a, b, c] \<and> (a = CHR ''y'' \<or> a = CHR ''Y'') \<and>
        (b = CHR ''e'' \<or> b = CHR ''E'') \<and> (c = CHR ''s'' \<or> c = CHR ''S''))"
  by (simp only: set_simps insert_iff empty_iff lower_y lower_yes simp_thms)

section \<open>The derived groups\<close>

text \<open>
  C1. For every group directory \<open>G\<close> and source account \<open>S\<close>, the names the derivation
  collects are exactly the names of the groups of \<open>G\<close> that list the name of \<open>S\<close> among
  their members and are not named like \<open>S\<close>.
\<close>

theorem clone_groups_exact:
  "set (clone_groups S G) =
     {gr_name g | g. g \<in> set G \<and> pw_name S \<in> set (gr_mem g) \<and> gr_name g \<noteq> pw_name S}"
  by (auto simp: clone_groups_filter)

text \<open>
  C2, as stated, fails: \<^verbatim>\<open>clone_groups\<close> is a list and the loop appends without looking
  at what it holds, so a group directory that lists a group name twice (two sources
  of the name service answering for the same group) gives the name twice.
\<close>

theorem clone_groups_duplicates:
  "\<not> distinct (clone_groups \<lparr>pw_name = ''debian'', pw_shell = ''/bin/bash''\<rparr>
      [\<lparr>gr_name = ''sudo'', gr_mem = [''debian'']\<rparr>,
       \<lparr>gr_name = ''sudo'', gr_mem = [''debian'']\<rparr>])"
  by (simp add: clone_groups_def)

text \<open>
  C2, amended. For every group directory the derived collection never contains the name
  of the source account, and it has no duplicates when no two records of the group
  directory have the same name.
\<close>

theorem clone_groups_invariant:
  "pw_name S \<notin> set (clone_groups S G) \<and>
   (distinct (map gr_name G) \<longrightarrow> distinct (clone_groups S G))"
  by (auto simp: clone_groups_filter distinct_map_filter)

theorem clone_groups_invariant_witness:
  "pw_name debian \<notin> set (clone_groups debian bone_groups) \<and>
   distinct (map gr_name bone_groups) \<and>
   distinct (clone_groups debian bone_groups) \<and>
   clone_groups debian bone_groups = [''sudo'', ''dialout'']"
proof -
  have d: "distinct (map gr_name bone_groups)"
    by (simp add: bone_groups_def)
  have v: "clone_groups debian bone_groups = [''sudo'', ''dialout'']"
    by (simp add: clone_groups_def bone_groups_def debian_def)
  from clone_groups_invariant [of debian bone_groups] d v show ?thesis
    by blast
qed

section \<open>The report of a failed creation\<close>

text \<open>
  C3. When the lookup after the command fails, the run ends with status 1, but the
  message naming the target is written by \<^verbatim>\<open>print\<close>, to standard output; nothing goes
  to the error stream, where the three other failures of the script are written. The
  run below is privileged, the source exists, the target does not, the answer is y and
  the command leaves the account directory as it was.
\<close>

theorem creation_failed_on_stdout:
  "script (bone 0 (Some ''y'')) (tot None) =
     \<lparr>events =
        [Geteuid, Getpwnam ''debian'', Getpwnam ''tot'', Getgrall,
         Stdout_write ''Command to run:\<newline>    useradd --shell /bin/bash --create-home --user-group --groups sudo,dialout tot\<newline>\<newline>'',
         Input ''Shall we proceed? [y/n]'',
         System ''useradd --shell /bin/bash --create-home --user-group --groups sudo,dialout tot'',
         Getpwnam ''tot'',
         Stdout_write ''Failed to create user [tot]!\<newline>''],
      clone_groups_var = Some [''sudo'', ''dialout''],
      cmd_var = Some [''useradd'', ''--shell'', ''/bin/bash'', ''--create-home'', ''--user-group'',
                      ''--groups'', ''sudo,dialout'', ''tot''],
      ending = SysExit 1\<rparr>"
  by (simp add: run_defs)

section \<open>The comment field\<close>





section \<open>The gates\<close>

text \<open>
  C5. Every run starts with the privilege check; a run without administrative privilege
  does nothing else but write its message to the error stream: it looks nothing up in
  the account directory or the group directory, and it ends with status 1.
\<close>

theorem privilege_first:
  "take 1 (events (script h a)) = [Geteuid] \<and>
   (geteuid h \<noteq> 0 \<longrightarrow>
      events (script h a) = [Geteuid, Stderr_write ''Insufficient privelege!\<newline>''] \<and>
      (\<forall>name. Getpwnam name \<notin> set (events (script h a))) \<and>
      Getgrall \<notin> set (events (script h a)) \<and>
      ending (script h a) = SysExit 1)"
  by (simp add: script_defs split: option.splits)

theorem privilege_first_witness:
  "geteuid (bone 1000 (Some ''n'')) \<noteq> 0 \<and>
   take 1 (events (script (bone 1000 (Some ''n'')) (tot None))) = [Geteuid] \<and>
   events (script (bone 1000 (Some ''n'')) (tot None)) =
     [Geteuid, Stderr_write ''Insufficient privelege!\<newline>''] \<and>
   (\<forall>name. Getpwnam name \<notin> set (events (script (bone 1000 (Some ''n'')) (tot None)))) \<and>
   Getgrall \<notin> set (events (script (bone 1000 (Some ''n'')) (tot None))) \<and>
   ending (script (bone 1000 (Some ''n'')) (tot None)) = SysExit 1"
proof -
  have u: "geteuid (bone 1000 (Some ''n'')) \<noteq> 0"
    by (simp add: bone_def)
  from privilege_first [of "bone 1000 (Some ''n'')" "tot None"] u show ?thesis
    by blast
qed

text \<open>
  C6, as stated, fails: a run without privilege whose source is absent stops at the
  privilege check and never writes the source-not-found message.
\<close>

theorem source_absent_unprivileged:
  "getpwnam (bone 1000 (Some ''n'')) (args_clone_user (tot None\<lparr>args_clone_user := ''ghost''\<rparr>)) = None \<and>
   Stderr_write ''Unable to find clone source user [ghost]!\<newline>''
     \<notin> set (events (script (bone 1000 (Some ''n'')) (tot None\<lparr>args_clone_user := ''ghost''\<rparr>)))"
  by (simp add: run_defs)

text \<open>
  C6, amended. For every run whose source account name is absent from the account
  directory, the run ends with status 1 and neither derives the groups nor builds the
  command; when the run has administrative privilege, all it does after the privilege
  check is look the source up and write the source-not-found message, naming the
  source, to the error stream.
\<close>

theorem source_absent:
  assumes "getpwnam h (args_clone_user a) = None"
  shows "ending (script h a) = SysExit 1 \<and>
         Getgrall \<notin> set (events (script h a)) \<and>
         clone_groups_var (script h a) = None \<and>
         cmd_var (script h a) = None \<and>
         (geteuid h = 0 \<longrightarrow>
            events (script h a) =
              [Geteuid, Getpwnam (args_clone_user a),
               Stderr_write (''Unable to find clone source user ['' @ args_clone_user a @ '']!\<newline>'')])"
  using assms by (simp add: script_def finish_def)

theorem source_absent_witness:
  "getpwnam (bone 0 (Some ''n'')) (args_clone_user (tot None\<lparr>args_clone_user := ''ghost''\<rparr>)) = None \<and>
   geteuid (bone 0 (Some ''n'')) = 0 \<and>
   ending (script (bone 0 (Some ''n'')) (tot None\<lparr>args_clone_user := ''ghost''\<rparr>)) = SysExit 1 \<and>
   Getgrall \<notin> set (events (script (bone 0 (Some ''n'')) (tot None\<lparr>args_clone_user := ''ghost''\<rparr>))) \<and>
   clone_groups_var (script (bone 0 (Some ''n'')) (tot None\<lparr>args_clone_user := ''ghost''\<rparr>)) = None \<and>
   cmd_var (script (bone 0 (Some ''n'')) (tot None\<lparr>args_clone_user := ''ghost''\<rparr>)) = None \<and>
   events (script (bone 0 (Some ''n'')) (tot None\<lparr>args_clone_user := ''ghost''\<rparr>)) =
     [Geteuid, Getpwnam ''ghost'',
      Stderr_write ''Unable to find clone source user [ghost]!\<newline>'']"
proof -
  have s: "getpwnam (bone 0 (Some ''n'')) (args_clone_user (tot None\<lparr>args_clone_user := ''ghost''\<rparr>)) = None"
    by (simp add: bone_defs)
  have u: "geteuid (bone 0 (Some ''n'')) = 0"
    by (simp add: bone_def)
  have n: "args_clone_user (tot None\<lparr>args_clone_user := ''ghost''\<rparr>) = ''ghost''"
    by simp
  from source_absent [OF s] s u n show ?thesis
    by simp
qed

text \<open>
  C7, as stated, fails: a run whose target is present stops at an earlier gate, with
  that gate's message, when it has no privilege or when its source is absent.
\<close>

theorem target_present_earlier_gate:
  "getpwnam (bone 1000 (Some ''n'')) (args_new_user (tot None\<lparr>args_new_user := ''debian''\<rparr>)) = Some debian \<and>
   Stderr_write ''New user [debian] already exists!\<newline>''
     \<notin> set (events (script (bone 1000 (Some ''n'')) (tot None\<lparr>args_new_user := ''debian''\<rparr>))) \<and>
   getpwnam (bone 0 (Some ''n''))
     (args_new_user \<lparr>args_clone_user = ''ghost'', args_new_user = ''debian'', args_full_name = None\<rparr>)
     = Some debian \<and>
   Stderr_write ''New user [debian] already exists!\<newline>''
     \<notin> set (events (script (bone 0 (Some ''n''))
          \<lparr>args_clone_user = ''ghost'', args_new_user = ''debian'', args_full_name = None\<rparr>))"
  by (simp add: run_defs)

text \<open>
  C7, amended. For every run whose target account name is already present in the
  account directory, the run ends with status 1 and neither prompts nor runs the creation
  command; when the run has administrative privilege and its source exists, all it does
  after the two lookups is write the already-exists message, naming the target, to the
  error stream.
\<close>

theorem target_present:
  assumes "getpwnam h (args_new_user a) = Some u"
  shows "ending (script h a) = SysExit 1 \<and>
         (\<forall>p. Input p \<notin> set (events (script h a))) \<and>
         (\<forall>line. System line \<notin> set (events (script h a))) \<and>
         (geteuid h = 0 \<and> getpwnam h (args_clone_user a) \<noteq> None \<longrightarrow>
            events (script h a) =
              [Geteuid, Getpwnam (args_clone_user a), Getpwnam (args_new_user a),
               Stderr_write (''New user ['' @ args_new_user a @ ''] already exists!\<newline>'')])"
  using assms by (auto simp: script_def finish_def split: option.splits)

theorem target_present_witness:
  "getpwnam (bone 0 (Some ''n'')) (args_new_user (tot None\<lparr>args_new_user := ''debian''\<rparr>)) = Some debian \<and>
   geteuid (bone 0 (Some ''n'')) = 0 \<and>
   getpwnam (bone 0 (Some ''n'')) (args_clone_user (tot None\<lparr>args_new_user := ''debian''\<rparr>)) \<noteq> None \<and>
   ending (script (bone 0 (Some ''n'')) (tot None\<lparr>args_new_user := ''debian''\<rparr>)) = SysExit 1 \<and>
   (\<forall>p. Input p \<notin> set (events (script (bone 0 (Some ''n'')) (tot None\<lparr>args_new_user := ''debian''\<rparr>)))) \<and>
   (\<forall>line. System line
      \<notin> set (events (script (bone 0 (Some ''n'')) (tot None\<lparr>args_new_user := ''debian''\<rparr>)))) \<and>
   events (script (bone 0 (Some ''n'')) (tot None\<lparr>args_new_user := ''debian''\<rparr>)) =
     [Geteuid, Getpwnam ''debian'', Getpwnam ''debian'',
      Stderr_write ''New user [debian] already exists!\<newline>'']"
proof -
  let ?a = "tot None\<lparr>args_new_user := ''debian''\<rparr>"
  have t: "getpwnam (bone 0 (Some ''n'')) (args_new_user ?a) = Some debian"
    by (simp add: bone_defs)
  have u: "geteuid (bone 0 (Some ''n'')) = 0"
    by (simp add: bone_def)
  have s: "getpwnam (bone 0 (Some ''n'')) (args_clone_user ?a) \<noteq> None"
    by (simp add: bone_defs)
  have n: "args_clone_user ?a = ''debian''" "args_new_user ?a = ''debian''"
    by (simp_all add: tot_def)
  from target_present [OF t] t u s n show ?thesis
    by simp
qed

section \<open>The confirmation\<close>

text \<open>
  C8. For every run that asks for confirmation and reads an answer whose lower-case form
  is neither y nor yes, the last thing the run does is print the cancellation message;
  it never runs the creation command, and it ends with status 0.
\<close>

theorem cancel_unless_yes:
  assumes "Input p \<in> set (events (script h a))"
    and "input_line h = Some choice"
    and "lower choice \<notin> {''y'', ''yes''}"
  shows "last (events (script h a)) = Stdout_write ''Operation cancelled.\<newline>'' \<and>
         (\<forall>line. System line \<notin> set (events (script h a))) \<and>
         ending (script h a) = SysExit 0"
proof -
  from Input_script [OF assms(1)] obtain S
    where g: "geteuid h = 0" "getpwnam h (args_new_user a) = None"
      "getpwnam h (args_clone_user a) = Some S"
    by blast
  show ?thesis
    by (simp add: script_reaches_build [OF g(1) g(3) g(2)] build_def
        confirm_cancel [OF assms(2,3)] finish_def)
qed

theorem cancel_unless_yes_witness:
  "Input ''Shall we proceed? [y/n]'' \<in> set (events (script (bone 0 (Some ''No'')) (tot None))) \<and>
   input_line (bone 0 (Some ''No'')) = Some ''No'' \<and>
   lower ''No'' \<notin> {''y'', ''yes''} \<and>
   last (events (script (bone 0 (Some ''No'')) (tot None))) = Stdout_write ''Operation cancelled.\<newline>'' \<and>
   (\<forall>line. System line \<notin> set (events (script (bone 0 (Some ''No'')) (tot None)))) \<and>
   ending (script (bone 0 (Some ''No'')) (tot None)) = SysExit 0"
proof -
  have i: "Input ''Shall we proceed? [y/n]'' \<in> set (events (script (bone 0 (Some ''No'')) (tot None)))"
    by (simp add: run_defs)
  have l: "input_line (bone 0 (Some ''No'')) = Some ''No''"
    by (simp add: bone_def)
  have n: "lower ''No'' \<notin> {''y'', ''yes''}"
    by (simp add: lower_def lower_char_def)
  from cancel_unless_yes [OF i l n] i l n show ?thesis
    by blast
qed

section \<open>The command\<close>

text \<open>
  C9. For every run that passes the three validation gates (privilege, source present,
  target absent), the command built is \<^verbatim>\<open>useradd\<close>, the shell flag with the shell path
  of the source, the flag that creates a home directory, the flag that creates a group
  named like the target, the groups flag with the derived groups joined by commas as
  one argument, and the target name; the comment field, when there is one, follows.
\<close>

theorem cmd_built:
  assumes "geteuid h = 0"
    and "getpwnam h (args_clone_user a) = Some S"
    and "getpwnam h (args_new_user a) = None"
  shows "cmd_var (script h a) =
           Some ([''useradd'', ''--shell'', pw_shell S, ''--create-home'', ''--user-group'',
                  ''--groups'', join '','' (clone_groups S (getgrall h)), args_new_user a]
                 @ comment_args (args_full_name a)) \<and>
         clone_groups_var (script h a) = Some (clone_groups S (getgrall h))"
  by (simp add: script_reaches_build [OF assms] build_vars cmd_def)

theorem cmd_built_witness:
  "geteuid (bone 0 (Some ''n'')) = 0 \<and>
   getpwnam (bone 0 (Some ''n'')) (args_clone_user (tot None)) = Some debian \<and>
   getpwnam (bone 0 (Some ''n'')) (args_new_user (tot None)) = None \<and>
   cmd_var (script (bone 0 (Some ''n'')) (tot None)) =
     Some [''useradd'', ''--shell'', ''/bin/bash'', ''--create-home'', ''--user-group'',
           ''--groups'', ''sudo,dialout'', ''tot''] \<and>
   clone_groups_var (script (bone 0 (Some ''n'')) (tot None)) = Some [''sudo'', ''dialout'']"
proof -
  have u: "geteuid (bone 0 (Some ''n'')) = 0"
    by (simp add: bone_def)
  have s: "getpwnam (bone 0 (Some ''n'')) (args_clone_user (tot None)) = Some debian"
    by (simp add: bone_defs)
  have t: "getpwnam (bone 0 (Some ''n'')) (args_new_user (tot None)) = None"
    by (simp add: bone_defs)
  have g: "clone_groups debian (getgrall (bone 0 (Some ''n''))) = [''sudo'', ''dialout'']"
    by (simp add: bone_defs clone_groups_def)
  have v: "pw_shell debian = ''/bin/bash''" "args_new_user (tot None) = ''tot''"
    "comment_args (args_full_name (tot None)) = []"
    by (simp_all add: debian_def tot_def)
  from cmd_built [OF u s t] u s t show ?thesis
    unfolding g v by simp
qed

text \<open>
  C10. For every run that builds the command while every group that lists the source
  among its members is named like the source, the derived groups are empty and the
  command still holds the groups flag, followed by the empty string as its argument.
\<close>

theorem empty_groups_flag_kept:
  assumes "cmd_var (script h a) = Some c"
    and "getpwnam h (args_clone_user a) = Some S"
    and "\<forall>g \<in> set (getgrall h). pw_name S \<in> set (gr_mem g) \<longrightarrow> gr_name g = pw_name S"
  shows "clone_groups_var (script h a) = Some [] \<and>
         take 8 c =
           [''useradd'', ''--shell'', pw_shell S, ''--create-home'', ''--user-group'',
            ''--groups'', '''', args_new_user a]"
proof -
  from assms(3) have e: "clone_groups S (getgrall h) = []"
    by (auto simp: clone_groups_filter filter_empty_conv)
  from cmd_var_script [OF assms(1)] assms(2)
  have g: "geteuid h = 0" "getpwnam h (args_new_user a) = None"
    and c: "c = cmd S (clone_groups S (getgrall h)) a"
    by auto
  show ?thesis
    by (simp add: script_reaches_build [OF g(1) assms(2) g(2)] build_vars c e cmd_def)
qed

theorem empty_groups_flag_kept_witness:
  "cmd_var (script (bone 0 (Some ''n'')\<lparr>getgrall := lonely_groups\<rparr>) (tot None)) =
     Some [''useradd'', ''--shell'', ''/bin/bash'', ''--create-home'', ''--user-group'',
           ''--groups'', '''', ''tot''] \<and>
   getpwnam (bone 0 (Some ''n'')\<lparr>getgrall := lonely_groups\<rparr>) (args_clone_user (tot None)) = Some debian \<and>
   list_all (\<lambda>g. pw_name debian \<notin> set (gr_mem g) \<or> gr_name g = pw_name debian)
     (getgrall (bone 0 (Some ''n'')\<lparr>getgrall := lonely_groups\<rparr>)) \<and>
   clone_groups_var (script (bone 0 (Some ''n'')\<lparr>getgrall := lonely_groups\<rparr>) (tot None)) = Some [] \<and>
   take 8 [''useradd'', ''--shell'', ''/bin/bash'', ''--create-home'', ''--user-group'',
           ''--groups'', '''', ''tot''] =
     [''useradd'', ''--shell'', pw_shell debian, ''--create-home'', ''--user-group'',
      ''--groups'', '''', args_new_user (tot None)]"
proof -
  let ?h = "bone 0 (Some ''n'')\<lparr>getgrall := lonely_groups\<rparr>"
  have c: "cmd_var (script ?h (tot None)) =
     Some [''useradd'', ''--shell'', ''/bin/bash'', ''--create-home'', ''--user-group'',
           ''--groups'', '''', ''tot'']"
    by (simp add: run_defs)
  have s: "getpwnam ?h (args_clone_user (tot None)) = Some debian"
    by (simp add: bone_defs)
  have m: "\<forall>g \<in> set (getgrall ?h). pw_name debian \<in> set (gr_mem g) \<longrightarrow> gr_name g = pw_name debian"
    by (simp add: lonely_groups_def debian_def)
  from empty_groups_flag_kept [OF c s m] c s m show ?thesis
    by (simp add: list_all_iff)
qed

end
